theory Spec2Isabelle
  imports Complex_Main
begin

section \<open>Tensors and scalars\<close>

text \<open>
  A \<^verbatim>\<open>tf.Tensor\<close> is modelled by its shape and its elements in row-major order.
  Elements are real numbers: the rounding, overflow and infinities of 32-bit floats are
  not part of the model. The one float value that is kept is NaN, which
  \<^verbatim>\<open>tf.reduce_mean\<close> produces on a tensor with no element: a scalar is
  \<open>Some x\<close> for the number \<open>x\<close> and \<open>None\<close> for NaN, and arithmetic on scalars
  propagates NaN.
\<close>

record tensor =
  shape :: "nat list"
  data :: "real list"

type_synonym scalar = "real option"

definition nan_add :: "scalar \<Rightarrow> scalar \<Rightarrow> scalar" where
  "nan_add a b = (case a of None \<Rightarrow> None | Some x \<Rightarrow> (case b of None \<Rightarrow> None | Some y \<Rightarrow> Some (x + y)))"

definition nan_mul :: "scalar \<Rightarrow> scalar \<Rightarrow> scalar" where
  "nan_mul a b = (case a of None \<Rightarrow> None | Some x \<Rightarrow> (case b of None \<Rightarrow> None | Some y \<Rightarrow> Some (x * y)))"

text \<open>Division of a float by a positive Python integer (the callers pass \<open>batch_idx + 1\<close>).\<close>

definition nan_div_nat :: "scalar \<Rightarrow> nat \<Rightarrow> scalar" where
  "nan_div_nat a n = (case a of None \<Rightarrow> None | Some x \<Rightarrow> Some (x / real n))"

text \<open>\<^verbatim>\<open>tf.reduce_mean\<close> over all elements: NaN on an empty tensor.\<close>

definition reduce_mean :: "tensor \<Rightarrow> scalar" where
  "reduce_mean t = (if data t = [] then None else Some (sum_list (data t) / real (length (data t))))"


definition tmap2 :: "(real \<Rightarrow> real \<Rightarrow> real) \<Rightarrow> tensor \<Rightarrow> tensor \<Rightarrow> tensor" where
  "tmap2 f a b = \<lparr>shape = shape a, data = map2 f (data a) (data b)\<rparr>"

definition ones_like :: "tensor \<Rightarrow> tensor" where
  "ones_like t = \<lparr>shape = shape t, data = replicate (length (data t)) 1\<rparr>"

definition zeros_like :: "tensor \<Rightarrow> tensor" where
  "zeros_like t = \<lparr>shape = shape t, data = replicate (length (data t)) 0\<rparr>"

text \<open>\<^verbatim>\<open>tf.fill(dims, value)\<close>: a tensor of the given shape, every element \<open>value\<close>.\<close>

definition fill :: "nat list \<Rightarrow> real \<Rightarrow> tensor" where
  "fill dims v = \<lparr>shape = dims, data = replicate (prod_list dims) v\<rparr>"

text \<open>A tensor is well formed when it has as many elements as its shape says.\<close>

definition wf_tensor :: "tensor \<Rightarrow> bool" where
  "wf_tensor t = (length (data t) = prod_list (shape t))"

section \<open>utils/utils.py\<close>




text \<open>
  Python exceptions are values. The message of an exception is not kept; its class is.
\<close>

datatype error =
  AssertionError
  | AttributeError
  | Exception
  | IndexError
  | TypeError
  | UnboundLocalError
  | ValueError

subsection \<open>Strings, the way \<^verbatim>\<open>extract_epoch_num\<close> uses them\<close>

text \<open>\<^verbatim>\<open>sub in s\<close> on Python strings: \<open>sub\<close> occurs in \<open>s\<close> as a contiguous piece.\<close>

fun py_in :: "string \<Rightarrow> string \<Rightarrow> bool" where
  "py_in sub [] = (sub = [])"
| "py_in sub (c # cs) = (take (length sub) (c # cs) = sub \<or> py_in sub cs)"

text \<open>\<^verbatim>\<open>s.split(sep)\<close> with a one-character separator: \<^verbatim>\<open>"a/b/".split("/") == ["a", "b", ""]\<close>.\<close>

fun py_split :: "char \<Rightarrow> string \<Rightarrow> string list" where
  "py_split sep [] = [[]]"
| "py_split sep (c # cs) =
     (if c = sep then [] # py_split sep cs
      else (case py_split sep cs of [] \<Rightarrow> [[c]] | w # ws \<Rightarrow> (c # w) # ws))"

text \<open>\<^verbatim>\<open>xs[-2]\<close>: the last but one element, IndexError on fewer than two.\<close>

definition last_but_one :: "'a list \<Rightarrow> error + 'a" where
  "last_but_one xs = (if length xs < 2 then Inl IndexError else Inr (xs ! (length xs - 2)))"

definition is_digit :: "char \<Rightarrow> bool" where
  "is_digit c = (c \<in> set ''0123456789'')"

text \<open>
  \<^verbatim>\<open>re.search(r"\d+", s)\<close>: the first maximal run of digits of \<open>s\<close>, \<open>None\<close> when
  \<open>s\<close> has no digit. Strings are ASCII here; the decimal digits of other scripts, which
  Python's \<^verbatim>\<open>\d\<close> also accepts, are outside the model.
\<close>

definition re_search_digits :: "string \<Rightarrow> string option" where
  "re_search_digits s =
     (let r = dropWhile (\<lambda>c. \<not> is_digit c) s
      in if r = [] then None else Some (takeWhile is_digit r))"

definition digit_val :: "char \<Rightarrow> int" where
  "digit_val c = int (of_char c) - 48"

text \<open>\<^verbatim>\<open>int(s)\<close> on a string of digits.\<close>

definition int_of_digits :: "string \<Rightarrow> int" where
  "int_of_digits s = foldl (\<lambda>a c. 10 * a + digit_val c) 0 s"

text \<open>
  \<^verbatim>\<open>glob(f"{results_dir}/*/")\<close>. The file system is given by \<open>subdirs\<close>, the names of
  the directories directly inside \<open>results_dir\<close> (non-empty, without \<^verbatim>\<open>/\<close>), in the
  order in which glob lists them. The pattern \<^verbatim>\<open>*\<close> does not match a name that
  starts with a dot, and each match is returned as the pattern's prefix followed by the
  name and the closing \<^verbatim>\<open>/\<close>. (A \<open>results_dir\<close> containing glob's own special
  characters is outside the model.)
\<close>

definition hidden :: "string \<Rightarrow> bool" where
  "hidden n = (case n of [] \<Rightarrow> False | c # _ \<Rightarrow> c = CHR ''.'')"

definition glob_subdirs :: "string \<Rightarrow> string list \<Rightarrow> string list" where
  "glob_subdirs results_dir subdirs =
     map (\<lambda>n. results_dir @ ''/'' @ n @ ''/'') (filter (\<lambda>n. \<not> hidden n) subdirs)"

text \<open>
  \<^verbatim>\<open>
  def extract_epoch_num(results_dir):
      candidate_dirs = [
          directory for directory in glob(f"{results_dir}/*/") if "model" in directory
      ]
      if not candidate_dirs:
          raise Exception(f"No candidate models found in '{results_dir}'")
      only_checkpoint_dirs = [
          int(re.search(r"\d+", candidate_dir.split("/")[-2])[0])
          for candidate_dir in candidate_dirs
      ]
      return max(only_checkpoint_dirs)
  \<close>
  \<^verbatim>\<open>re.search\<close> returns \<^verbatim>\<open>None\<close> when nothing matches, and subscripting
  \<^verbatim>\<open>None\<close> raises TypeError. The list comprehension stops at the first element that
  raises.
\<close>

definition checkpoint_num :: "string \<Rightarrow> error + int" where
  "checkpoint_num candidate_dir =
     (case last_but_one (py_split CHR ''/'' candidate_dir) of
        Inl e \<Rightarrow> Inl e
      | Inr name \<Rightarrow>
          (case re_search_digits name of
             None \<Rightarrow> Inl TypeError
           | Some m \<Rightarrow> Inr (int_of_digits m)))"

fun checkpoint_nums :: "string list \<Rightarrow> error + int list" where
  "checkpoint_nums [] = Inr []"
| "checkpoint_nums (d # ds) =
     (case checkpoint_num d of
        Inl e \<Rightarrow> Inl e
      | Inr n \<Rightarrow> (case checkpoint_nums ds of Inl e \<Rightarrow> Inl e | Inr ns \<Rightarrow> Inr (n # ns)))"

text \<open>\<^verbatim>\<open>max(xs)\<close> on a list: ValueError on the empty list.\<close>

definition py_max :: "int list \<Rightarrow> error + int" where
  "py_max xs = (case xs of [] \<Rightarrow> Inl ValueError | x # ys \<Rightarrow> Inr (fold max ys x))"

definition extract_epoch_num :: "string \<Rightarrow> string list \<Rightarrow> error + int" where
  "extract_epoch_num results_dir subdirs =
     (let candidate_dirs = filter (py_in ''model'') (glob_subdirs results_dir subdirs)
      in if candidate_dirs = [] then Inl Exception
         else (case checkpoint_nums candidate_dirs of
                 Inl e \<Rightarrow> Inl e
               | Inr only_checkpoint_dirs \<Rightarrow> py_max only_checkpoint_dirs))"

section \<open>stackgan/stage1/model.py: construction of the stage-1 generator\<close>

text \<open>
  Modelled from the spec: the base class \<^verbatim>\<open>Generator\<close>, whose \<^verbatim>\<open>__init__\<close> the
  stage-1 generator calls first, is not among the sources. By section 3 of the
  specification (and like the base class \<^verbatim>\<open>Discriminator\<close> of
  \<^verbatim>\<open>models/discriminators.py\<close>) it stores the image size and the two initialisers and
  creates an optimizer with the given learning rate and first-moment decay 0.5.
\<close>

record 'i generator_base =
  img_size :: "int list"
  w_init :: 'i
  bn_init :: 'i
  optimizer_lr :: real
  optimizer_beta_1 :: real

definition Generator_init :: "int list \<Rightarrow> real \<Rightarrow> int \<Rightarrow> 'i \<Rightarrow> 'i \<Rightarrow> 'i generator_base" where
  "Generator_init img_sz lr conditional_emb_sz w_i bn_i =
     \<lparr>img_size = img_sz, w_init = w_i, bn_init = bn_i, optimizer_lr = lr, optimizer_beta_1 = 0.5\<rparr>"

text \<open>
  \<^verbatim>\<open>
  def __init__(self, img_size, lr, conditional_emb_size, w_init, bn_init):
      super().__init__(img_size, lr, conditional_emb_size, w_init, bn_init)
      self.num_output_channels = self.img_size[0]
      self.conditional_emb_size = conditional_emb_size
      self.kl_coeff = 2
      assert (
          self.num_output_channels == 3 or self.num_output_channels == 1
      ), f"The number of output channels must be 2 or 1. Found {self.num_output_channels}"
      self.loss = tf.keras.losses.BinaryCrossentropy(from_logits=True)
  \<close>
  The loss attribute is the same function for every generator that is constructed and is
  defined below as \<open>BinaryCrossentropy_from_logits\<close>.
\<close>

record 'i generator_stage1 = "'i generator_base" +
  num_output_channels :: int
  conditional_emb_size :: int
  kl_coeff :: int

definition GeneratorStage1_init ::
  "int list \<Rightarrow> real \<Rightarrow> int \<Rightarrow> 'i \<Rightarrow> 'i \<Rightarrow> error + 'i generator_stage1" where
  "GeneratorStage1_init img_sz lr conditional_emb_sz w_i bn_i =
     (let base = Generator_init img_sz lr conditional_emb_sz w_i bn_i
      in case img_size base of
           [] \<Rightarrow> Inl IndexError
         | c # _ \<Rightarrow>
             if c = 3 \<or> c = 1
             then Inr (generator_base.extend base
                        \<lparr>num_output_channels = c, conditional_emb_size = conditional_emb_sz, kl_coeff = 2\<rparr>)
             else Inl AssertionError)"

section \<open>The learning-rate-decay callback\<close>

text \<open>
  Modelled from the spec: the callback \<^verbatim>\<open>LearningRateDecay\<close> of
  \<^verbatim>\<open>utils/callbacks.py\<close> is not among the sources; \<^verbatim>\<open>main.py\<close> only constructs
  it from a decay factor and a period \<^verbatim>\<open>every_n\<close> and hands it to the trainer.
  Section 4.6 of the specification: given a decay factor and a period in epochs, the
  callback multiplies each network's optimizer learning rate by the decay factor every
  time the epoch counter is a positive multiple of the period, and does nothing
  otherwise; it tracks the last epoch it fired on, so that a second call with the same
  epoch number does not decay again.
\<close>

record learning_rate_decay =
  decay_factor :: real
  every_n :: int
  last_fired :: "int option"

definition LearningRateDecay :: "real \<Rightarrow> int \<Rightarrow> learning_rate_decay" where
  "LearningRateDecay factor period = \<lparr>decay_factor = factor, every_n = period, last_fired = None\<rparr>"

definition positive_multiple :: "int \<Rightarrow> int \<Rightarrow> bool" where
  "positive_multiple epoch period = (0 < epoch \<and> period dvd epoch)"

text \<open>
  One call of the callback with the epoch counter: the callback after the call and the
  learning rates of the networks' optimizers after the call.
\<close>

definition lr_decay_call ::
  "learning_rate_decay \<Rightarrow> int \<Rightarrow> real list \<Rightarrow> learning_rate_decay \<times> real list" where
  "lr_decay_call cb epoch lrs =
     (if positive_multiple epoch (every_n cb) \<and> last_fired cb \<noteq> Some epoch
      then (cb\<lparr>last_fired := Some epoch\<rparr>, map (\<lambda>lr. lr * decay_factor cb) lrs)
      else (cb, lrs))"

text \<open>The trainer calls the callback once after each epoch, with that epoch's number.\<close>

fun lr_decay_run ::
  "learning_rate_decay \<Rightarrow> int list \<Rightarrow> real list \<Rightarrow> learning_rate_decay \<times> real list" where
  "lr_decay_run cb [] lrs = (cb, lrs)"
| "lr_decay_run cb (e # es) lrs = (case lr_decay_call cb e lrs of (cb', lrs') \<Rightarrow> lr_decay_run cb' es lrs')"

section \<open>Binary cross-entropy on logits\<close>

text \<open>
  \<^verbatim>\<open>tf.nn.sigmoid_cross_entropy_with_logits(labels=z, logits=x)\<close> computes, for each
  element, \<^verbatim>\<open>max(x, 0) - x * z + log(1 + exp(-abs(x)))\<close>.
\<close>

definition sigmoid_cross_entropy_with_logits :: "tensor \<Rightarrow> tensor \<Rightarrow> tensor" where
  "sigmoid_cross_entropy_with_logits labels logits =
     tmap2 (\<lambda>x z. max x 0 - x * z + ln (1 + exp (- \<bar>x\<bar>))) logits labels"

text \<open>
  \<^verbatim>\<open>tf.keras.losses.BinaryCrossentropy(from_logits=True)\<close>, called as
  \<^verbatim>\<open>loss(y_true, y_pred)\<close>: the element-wise cross-entropy above, averaged over the
  last axis and then over the remaining elements with a division that gives 0 when there
  is nothing to average. For a tensor with elements this is the mean over all of them.
  Without elements it is 0 when an axis other than the last is empty, and NaN otherwise.
\<close>

definition BinaryCrossentropy_from_logits :: "tensor \<Rightarrow> tensor \<Rightarrow> scalar" where
  "BinaryCrossentropy_from_logits y_true y_pred =
     (let per_element = sigmoid_cross_entropy_with_logits y_true y_pred
      in if data per_element = []
         then (if prod_list (butlast (shape y_pred)) = 0 then Some 0 else None)
         else Some (sum_list (data per_element) / real (length (data per_element))))"

text \<open>
  The binary cross-entropy of a target \<open>z\<close> under the probability that the sigmoid
  assigns to a logit \<open>x\<close>, as the textbooks define it. The properties below compare the
  code with it.
\<close>

definition sigmoid :: "real \<Rightarrow> real" where
  "sigmoid x = 1 / (1 + exp (- x))"

definition bce :: "real \<Rightarrow> real \<Rightarrow> real" where
  "bce z x = - z * ln (sigmoid x) - (1 - z) * ln (1 - sigmoid x)"

definition mean_bce :: "real \<Rightarrow> tensor \<Rightarrow> real" where
  "mean_bce z logits = sum_list (map (bce z) (data logits)) / real (length (data logits))"

section \<open>models/discriminators.py\<close>

text \<open>
  \<^verbatim>\<open>
  def loss(self, predictions_on_real, predictions_on_wrong, predictions_on_fake):
      real_loss = tf.reduce_mean(tf.nn.sigmoid_cross_entropy_with_logits(
          labels=tf.ones_like(predictions_on_real), logits=predictions_on_real))
      wrong_loss = tf.reduce_mean(tf.nn.sigmoid_cross_entropy_with_logits(
          labels=tf.zeros_like(predictions_on_wrong), logits=predictions_on_wrong))
      fake_loss = tf.reduce_mean(tf.nn.sigmoid_cross_entropy_with_logits(
          labels=tf.zeros_like(predictions_on_fake), logits=predictions_on_fake))
      total_loss = real_loss + (wrong_loss + fake_loss) / 2
      return total_loss
  \<close>
\<close>

definition DiscriminatorStage1_loss :: "tensor \<Rightarrow> tensor \<Rightarrow> tensor \<Rightarrow> scalar" where
  "DiscriminatorStage1_loss predictions_on_real predictions_on_wrong predictions_on_fake =
     (let real_loss = reduce_mean (sigmoid_cross_entropy_with_logits
                        (ones_like predictions_on_real) predictions_on_real);
          wrong_loss = reduce_mean (sigmoid_cross_entropy_with_logits
                        (zeros_like predictions_on_wrong) predictions_on_wrong);
          fake_loss = reduce_mean (sigmoid_cross_entropy_with_logits
                        (zeros_like predictions_on_fake) predictions_on_fake);
          total_loss = nan_add real_loss (nan_mul (nan_add wrong_loss fake_loss) (Some (1 / 2)))
      in total_loss)"

section \<open>Python numbers and tensors in one variable\<close>

text \<open>
  The trainer starts its accumulators at the Python integer \<^verbatim>\<open>0\<close> and adds scalar
  tensors to them; \<^verbatim>\<open>sum\<close> over the generator's losses starts at \<^verbatim>\<open>0\<close> as well.
  A value is therefore a Python integer or a scalar tensor. Adding a tensor to either
  gives a tensor; only a tensor has the method \<^verbatim>\<open>numpy()\<close>.
\<close>

datatype pyval = PyInt int | PyTensor scalar

fun py_add :: "pyval \<Rightarrow> pyval \<Rightarrow> pyval" where
  "py_add (PyInt a) (PyInt b) = PyInt (a + b)"
| "py_add (PyInt a) (PyTensor t) = PyTensor (nan_add (Some (real_of_int a)) t)"
| "py_add (PyTensor t) (PyInt b) = PyTensor (nan_add t (Some (real_of_int b)))"
| "py_add (PyTensor t) (PyTensor u) = PyTensor (nan_add t u)"

text \<open>\<^verbatim>\<open>sum(xs)\<close> on a list of scalar tensors: \<^verbatim>\<open>0 + xs[0] + xs[1] + ...\<close>.\<close>

definition py_sum :: "scalar list \<Rightarrow> pyval" where
  "py_sum xs = foldl (\<lambda>acc x. py_add acc (PyTensor x)) (PyInt 0) xs"

definition numpy :: "pyval \<Rightarrow> error + scalar" where
  "numpy v = (case v of PyInt _ \<Rightarrow> Inl AttributeError | PyTensor t \<Rightarrow> Inr t)"

text \<open>\<^verbatim>\<open>float(v)\<close>.\<close>

definition py_float :: "pyval \<Rightarrow> scalar" where
  "py_float v = (case v of PyInt i \<Rightarrow> Some (real_of_int i) | PyTensor t \<Rightarrow> t)"

section \<open>Keras models, variables and optimizers\<close>

text \<open>
  Every \<^verbatim>\<open>tf.Variable\<close> of the process has an address in one store. A Keras model
  owns trainable variables (weights) and non-trainable variables (the moving statistics
  of its batch-normalisation layers).

  The layers themselves belong to TensorFlow and are not modelled: a model carries a
  function \<open>call\<close> that gives, for the store, the random generator, the training flag
  and the two inputs, what its Python method \<^verbatim>\<open>call\<close> returns, the random generator
  afterwards, the values it hands to \<^verbatim>\<open>add_loss\<close> in order, and the moving statistics
  that batch normalisation computes.
\<close>

type_synonym var = nat
type_synonym store = "var \<Rightarrow> tensor"

record ('g, 'out) call_result =
  returned :: 'out
  rng_after :: 'g
  added_losses :: "scalar list"
  moving_statistics :: "var \<Rightarrow> tensor"

record ('g, 'out) kmodel =
  layer_name :: nat
  trainable_variables :: "var list"
  non_trainable_variables :: "var list"
  call :: "store \<Rightarrow> 'g \<Rightarrow> bool \<Rightarrow> tensor \<times> tensor \<Rightarrow> ('g, 'out) call_result"
  loss :: "tensor \<Rightarrow> tensor \<Rightarrow> scalar"

text \<open>
  The state that a training step reads and writes: the store, the process-wide random
  generator, the list \<^verbatim>\<open>losses\<close> of each model object (\<open>layer_name\<close> identifies
  the object) and the internal state of the two optimizers.
\<close>

record ('g, 'o) tstate =
  variables :: store
  rng :: 'g
  losses :: "nat \<Rightarrow> scalar list"
  generator_optimizer :: 'o
  discriminator_optimizer :: 'o

text \<open>
  \<^verbatim>\<open>model(inputs, training=flag)\<close>, Keras' \<^verbatim>\<open>__call__\<close> on a top-level model: the
  model's \<^verbatim>\<open>losses\<close> are cleared and then hold what this call adds; the method
  \<^verbatim>\<open>call\<close> runs; batch normalisation writes its moving statistics, which are
  non-trainable variables of the model, only when the training flag is set. No other
  variable is written.
\<close>

definition keras_call ::
  "('g, 'out) kmodel \<Rightarrow> tensor \<times> tensor \<Rightarrow> bool \<Rightarrow> ('g, 'o) tstate \<Rightarrow> 'out \<times> ('g, 'o) tstate" where
  "keras_call m inputs training st =
     (let r = call m (variables st) (rng st) training inputs;
          vs = (if training
                then (\<lambda>v. if v \<in> set (non_trainable_variables m) then moving_statistics r v
                          else variables st v)
                else variables st)
      in (returned r,
          st\<lparr>variables := vs, rng := rng_after r,
             losses := (losses st)(layer_name m := added_losses r)\<rparr>))"

text \<open>
  The parts of TensorFlow that the trainer calls directly: the random generator, the
  gradients that the two tapes give (functions of what the tapes recorded: the store at
  the start of the step, the batch and the noise), and the optimizer's update of one
  variable and of its own state.
\<close>

record batch =
  batch_size :: nat
  image_large :: tensor
  wrong_image_large :: tensor
  text_tensor :: tensor

record ('g, 'o) tensorflow =
  tf_random_normal :: "'g \<Rightarrow> nat list \<Rightarrow> tensor \<times> 'g"
  generator_tape_gradient :: "store \<Rightarrow> batch \<Rightarrow> tensor \<Rightarrow> var list \<Rightarrow> tensor list"
  discriminator_tape_gradient :: "store \<Rightarrow> batch \<Rightarrow> tensor \<Rightarrow> var list \<Rightarrow> tensor list"
  optimizer_rule :: "'o \<Rightarrow> var \<Rightarrow> tensor \<Rightarrow> tensor \<Rightarrow> tensor"
  optimizer_next :: "'o \<Rightarrow> tensor list \<Rightarrow> 'o"

text \<open>
  \<^verbatim>\<open>optimizer.apply_gradients(zip(gradients, variables))\<close>: each variable of the
  list is assigned its updated value; the optimizer's own state advances.
\<close>

definition apply_gradients ::
  "('g, 'o) tensorflow \<Rightarrow> 'o \<Rightarrow> (tensor \<times> var) list \<Rightarrow> store \<Rightarrow> store \<times> 'o" where
  "apply_gradients tf opt grads_and_vars vs =
     (fold (\<lambda>(g, v) s. s(v := optimizer_rule tf opt v g (s v))) grads_and_vars vs,
      optimizer_next tf opt (map fst grads_and_vars))"

section \<open>stackgan/stage1/model.py: the forward pass of the stage-1 generator\<close>



section \<open>stackgan/stage2/trainer.py\<close>

text \<open>
  The trainer holds the stage-2 model (generator and discriminator), the stage-1
  generator and the noise size. (\<^verbatim>\<open>num_samples\<close> and \<^verbatim>\<open>augment\<close> only reach
  \<^verbatim>\<open>tensors_from_sample\<close>, whose result is the \<open>batch\<close> here; the progress bar has
  no effect on the values computed.)
\<close>

record 'g stage2_trainer =
  model_generator :: "('g, tensor) kmodel"
  model_discriminator :: "('g, tensor) kmodel"
  stage_1_generator :: "('g, tensor \<times> tensor \<times> tensor) kmodel"
  noise_size :: nat

text \<open>
  The forward passes of one batch and the two shape assertions. \<^verbatim>\<open>train_epoch\<close>
  (lines 77 to 109) and \<^verbatim>\<open>val_epoch\<close> (lines 208 to 240) have the same text, except
  that the stage-2 generator and the discriminator are called with
  \<^verbatim>\<open>training=True\<close> in the first and \<^verbatim>\<open>training=False\<close> in the second. The
  stage-1 generator is called with \<^verbatim>\<open>training=False\<close> in both.
  \<^verbatim>\<open>
  noise_z = tf.random.normal((batch_size, self.noise_size))
  fake_images_small, _, _ = self.stage_1_generator([text_tensor, noise_z], training=False)
  fake_images_large = self.model.generator([fake_images_small, text_tensor], training=True)
  assert fake_images_large.shape == image_large.shape, ...
  real_predictions = self.model.discriminator([image_large, text_tensor], training=True)
  wrong_predictions = self.model.discriminator([wrong_image_large, text_tensor], training=True)
  fake_predictions = self.model.discriminator([fake_images_large, text_tensor], training=True)
  assert real_predictions.shape == wrong_predictions.shape == fake_predictions.shape, ...
  \<close>
  The result is the noise and the three predictions, or the AssertionError; the state is
  the one reached when the exception is raised or the passes are done.
\<close>

definition forward_pass ::
  "('g, 'o) tensorflow \<Rightarrow> 'g stage2_trainer \<Rightarrow> bool \<Rightarrow> batch \<Rightarrow> ('g, 'o) tstate \<Rightarrow>
   (error + tensor \<times> tensor \<times> tensor \<times> tensor) \<times> ('g, 'o) tstate" where
  "forward_pass tf self training sample st0 =
     (let (noise_z, g1) = tf_random_normal tf (rng st0) [batch_size sample, noise_size self];
          st1 = st0\<lparr>rng := g1\<rparr>;
          (small, st2) = keras_call (stage_1_generator self) (text_tensor sample, noise_z) False st1;
          fake_images_small = fst small;
          (fake_images_large, st3) =
            keras_call (model_generator self) (fake_images_small, text_tensor sample) training st2
      in if shape fake_images_large \<noteq> shape (image_large sample) then (Inl AssertionError, st3)
         else
           (let (real_predictions, st4) =
                  keras_call (model_discriminator self) (image_large sample, text_tensor sample) training st3;
                (wrong_predictions, st5) =
                  keras_call (model_discriminator self) (wrong_image_large sample, text_tensor sample) training st4;
                (fake_predictions, st6) =
                  keras_call (model_discriminator self) (fake_images_large, text_tensor sample) training st5
            in if shape real_predictions = shape wrong_predictions
                  \<and> shape wrong_predictions = shape fake_predictions
               then (Inr (noise_z, real_predictions, wrong_predictions, fake_predictions), st6)
               else (Inl AssertionError, st6)))"

text \<open>The six losses of one batch.\<close>

record step_losses =
  step_generator_loss :: scalar
  step_discriminator_loss :: scalar
  step_kl_loss :: pyval
  step_disc_real_loss :: scalar
  step_disc_wrong_loss :: scalar
  step_disc_fake_loss :: scalar

text \<open>\<^verbatim>\<open>generator_loss += kl_loss\<close>: a tensor plus a tensor or a Python integer.\<close>

definition tensor_plus :: "scalar \<Rightarrow> pyval \<Rightarrow> scalar" where
  "tensor_plus t v = nan_add t (py_float v)"

text \<open>
  \<^verbatim>\<open>
  generator_loss = self.model.generator.loss(tf.ones_like(fake_predictions), fake_predictions)
  kl_loss = sum(self.model.generator.losses)
  generator_loss += kl_loss
  disc_real_loss = self.model.discriminator.loss(<target of the real images>, real_predictions)
  disc_wrong_loss = self.model.discriminator.loss(tf.zeros_like(wrong_predictions), wrong_predictions)
  disc_fake_loss = self.model.discriminator.loss(tf.zeros_like(fake_predictions), fake_predictions)
  discriminator_loss = disc_real_loss + 0.5 * disc_wrong_loss + 0.5 * disc_fake_loss
  \<close>
  The target of the real images is \<^verbatim>\<open>tf.fill(real_predictions.shape, 0.9)\<close> in
  \<^verbatim>\<open>train_epoch\<close> (line 118) and \<^verbatim>\<open>tf.ones_like(real_predictions)\<close> in
  \<^verbatim>\<open>val_epoch\<close> (line 249); the rest of lines 111 to 129 and 242 to 260 is the same.
\<close>

definition generator_kl_loss :: "('g, 'out) kmodel \<Rightarrow> ('g, 'o) tstate \<Rightarrow> pyval" where
  "generator_kl_loss generator st = py_sum (losses st (layer_name generator))"

definition batch_losses ::
  "'g stage2_trainer \<Rightarrow> tensor \<Rightarrow> tensor \<Rightarrow> tensor \<Rightarrow> tensor \<Rightarrow> ('g, 'o) tstate \<Rightarrow> step_losses" where
  "batch_losses self real_target real_predictions wrong_predictions fake_predictions st =
     (let generator_loss0 = loss (model_generator self) (ones_like fake_predictions) fake_predictions;
          kl = generator_kl_loss (model_generator self) st;
          generator_loss = tensor_plus generator_loss0 kl;
          disc_real_loss = loss (model_discriminator self) real_target real_predictions;
          disc_wrong_loss =
            loss (model_discriminator self) (zeros_like wrong_predictions) wrong_predictions;
          disc_fake_loss =
            loss (model_discriminator self) (zeros_like fake_predictions) fake_predictions;
          discriminator_loss =
            nan_add (nan_add disc_real_loss (nan_mul (Some 0.5) disc_wrong_loss))
              (nan_mul (Some 0.5) disc_fake_loss)
      in \<lparr>step_generator_loss = generator_loss,
          step_discriminator_loss = discriminator_loss,
          step_kl_loss = kl,
          step_disc_real_loss = disc_real_loss,
          step_disc_wrong_loss = disc_wrong_loss,
          step_disc_fake_loss = disc_fake_loss\<rparr>)"

text \<open>
  \<^verbatim>\<open>
  generator_gradients = generator_tape.gradient(
      generator_loss, self.model.generator.trainable_variables)
  discriminator_gradients = discriminator_tape.gradient(
      discriminator_loss, self.model.discriminator.trainable_variables)
  self.model.generator.optimizer.apply_gradients(
      zip(generator_gradients, self.model.generator.trainable_variables))
  self.model.discriminator.optimizer.apply_gradients(
      zip(discriminator_gradients, self.model.discriminator.trainable_variables))
  \<close>
  \<open>vs0\<close> is the store at the start of the step, \<open>st\<close> the state after the forward
  passes. The gradients are taken to be tensors, one for each variable.
\<close>

definition update_gradients ::
  "('g, 'o) tensorflow \<Rightarrow> 'g stage2_trainer \<Rightarrow> store \<Rightarrow> batch \<Rightarrow> tensor \<Rightarrow> ('g, 'o) tstate \<Rightarrow>
   ('g, 'o) tstate" where
  "update_gradients tf self vs0 sample noise_z st =
     (let generator_gradients =
            generator_tape_gradient tf vs0 sample noise_z (trainable_variables (model_generator self));
          discriminator_gradients =
            discriminator_tape_gradient tf vs0 sample noise_z
              (trainable_variables (model_discriminator self));
          (vs1, g_opt) =
            apply_gradients tf (generator_optimizer st)
              (zip generator_gradients (trainable_variables (model_generator self))) (variables st);
          (vs2, d_opt) =
            apply_gradients tf (discriminator_optimizer st)
              (zip discriminator_gradients (trainable_variables (model_discriminator self))) vs1
      in st\<lparr>variables := vs2, generator_optimizer := g_opt, discriminator_optimizer := d_opt\<rparr>)"

text \<open>The body of the loop of \<^verbatim>\<open>train_epoch\<close>, lines 65 to 147, for one batch.\<close>

definition train_step ::
  "('g, 'o) tensorflow \<Rightarrow> 'g stage2_trainer \<Rightarrow> batch \<Rightarrow> ('g, 'o) tstate \<Rightarrow>
   (error + step_losses) \<times> ('g, 'o) tstate" where
  "train_step tf self sample st =
     (case forward_pass tf self True sample st of
        (Inl e, st') \<Rightarrow> (Inl e, st')
      | (Inr (noise_z, real_predictions, wrong_predictions, fake_predictions), st') \<Rightarrow>
          (Inr (batch_losses self (fill (shape real_predictions) 0.9)
                  real_predictions wrong_predictions fake_predictions st'),
           update_gradients tf self (variables st) sample noise_z st'))"

text \<open>The body of the loop of \<^verbatim>\<open>val_epoch\<close>, lines 198 to 260, for one batch.\<close>

definition val_step ::
  "('g, 'o) tensorflow \<Rightarrow> 'g stage2_trainer \<Rightarrow> batch \<Rightarrow> ('g, 'o) tstate \<Rightarrow>
   (error + step_losses) \<times> ('g, 'o) tstate" where
  "val_step tf self sample st =
     (case forward_pass tf self False sample st of
        (Inl e, st') \<Rightarrow> (Inl e, st')
      | (Inr (noise_z, real_predictions, wrong_predictions, fake_predictions), st') \<Rightarrow>
          (Inr (batch_losses self (ones_like real_predictions)
                  real_predictions wrong_predictions fake_predictions st'),
           st'))"

text \<open>
  The local variables of an epoch: the loop counter \<^verbatim>\<open>batch_idx\<close>, which is not
  bound before the first iteration, and the six accumulators, which start at the Python
  integer 0.
\<close>

record epoch_locals =
  batch_idx :: "nat option"
  acc_generator_loss :: pyval
  acc_discriminator_loss :: pyval
  acc_kl_loss :: pyval
  acc_disc_real_loss :: pyval
  acc_disc_wrong_loss :: pyval
  acc_disc_fake_loss :: pyval

definition initial_locals :: epoch_locals where
  "initial_locals =
     \<lparr>batch_idx = None, acc_generator_loss = PyInt 0, acc_discriminator_loss = PyInt 0,
      acc_kl_loss = PyInt 0, acc_disc_real_loss = PyInt 0, acc_disc_wrong_loss = PyInt 0,
      acc_disc_fake_loss = PyInt 0\<rparr>"

text \<open>
  \<^verbatim>\<open>
  acc_generator_loss += generator_loss
  acc_discriminator_loss += discriminator_loss
  acc_kl_loss += kl_loss
  acc_disc_real_loss += disc_real_loss
  acc_disc_wrong_loss += disc_wrong_loss
  acc_disc_fake_loss += disc_fake_loss
  \<close>
\<close>

definition accumulate :: "epoch_locals \<Rightarrow> step_losses \<Rightarrow> epoch_locals" where
  "accumulate ls l =
     ls\<lparr>acc_generator_loss := py_add (acc_generator_loss ls) (PyTensor (step_generator_loss l)),
        acc_discriminator_loss := py_add (acc_discriminator_loss ls) (PyTensor (step_discriminator_loss l)),
        acc_kl_loss := py_add (acc_kl_loss ls) (step_kl_loss l),
        acc_disc_real_loss := py_add (acc_disc_real_loss ls) (PyTensor (step_disc_real_loss l)),
        acc_disc_wrong_loss := py_add (acc_disc_wrong_loss ls) (PyTensor (step_disc_wrong_loss l)),
        acc_disc_fake_loss := py_add (acc_disc_fake_loss ls) (PyTensor (step_disc_fake_loss l))\<rparr>"

text \<open>
  \<^verbatim>\<open>for batch_idx, sample in enumerate(loader.parsed_subset): ...\<close>, with the body
  of the loop as a parameter: the counter is bound, the body runs, the losses of the batch
  are accumulated. An exception in the body ends the loop.
\<close>

fun epoch_loop ::
  "(batch \<Rightarrow> 's \<Rightarrow> (error + step_losses) \<times> 's) \<Rightarrow> batch list \<Rightarrow> nat \<Rightarrow> epoch_locals \<Rightarrow> 's \<Rightarrow>
   (error + epoch_locals) \<times> 's" where
  "epoch_loop step [] i ls st = (Inr ls, st)"
| "epoch_loop step (sample # rest) i ls st =
     (case step sample st of
        (Inl e, st') \<Rightarrow> (Inl e, st')
      | (Inr l, st') \<Rightarrow> epoch_loop step rest (Suc i) (accumulate (ls\<lparr>batch_idx := Some i\<rparr>) l) st')"

text \<open>
  One entry of the dictionary that the epoch returns:
  \<^verbatim>\<open>np.asscalar(acc.numpy()) / (batch_idx + 1)\<close>. The left operand is evaluated
  first. (\<^verbatim>\<open>np.asscalar\<close>, which NumPy had up to version 1.22, gives the Python float
  of a one-element array.)
\<close>

definition report_entry :: "pyval \<Rightarrow> nat option \<Rightarrow> error + scalar" where
  "report_entry acc idx =
     (case numpy acc of
        Inl e \<Rightarrow> Inl e
      | Inr t \<Rightarrow> (case idx of None \<Rightarrow> Inl UnboundLocalError | Some i \<Rightarrow> Inr (nan_div_nat t (i + 1))))"

record report =
  report_generator_loss :: scalar
  report_discriminator_loss :: scalar
  report_kl_loss :: scalar
  report_discriminator_real_loss :: scalar
  report_discriminator_wrong_loss :: scalar
  report_discriminator_fake_loss :: scalar

text \<open>The dictionary of lines 170 to 181 (and 284 to 295), its entries evaluated in order.\<close>

definition epoch_report :: "epoch_locals \<Rightarrow> error + report" where
  "epoch_report ls =
     (case report_entry (acc_generator_loss ls) (batch_idx ls) of Inl e \<Rightarrow> Inl e | Inr g \<Rightarrow>
      case report_entry (acc_discriminator_loss ls) (batch_idx ls) of Inl e \<Rightarrow> Inl e | Inr d \<Rightarrow>
      case report_entry (acc_kl_loss ls) (batch_idx ls) of Inl e \<Rightarrow> Inl e | Inr k \<Rightarrow>
      case report_entry (acc_disc_real_loss ls) (batch_idx ls) of Inl e \<Rightarrow> Inl e | Inr r \<Rightarrow>
      case report_entry (acc_disc_wrong_loss ls) (batch_idx ls) of Inl e \<Rightarrow> Inl e | Inr w \<Rightarrow>
      case report_entry (acc_disc_fake_loss ls) (batch_idx ls) of Inl e \<Rightarrow> Inl e | Inr f \<Rightarrow>
      Inr \<lparr>report_generator_loss = g, report_discriminator_loss = d, report_kl_loss = k,
           report_discriminator_real_loss = r, report_discriminator_wrong_loss = w,
           report_discriminator_fake_loss = f\<rparr>)"

definition run_epoch ::
  "(batch \<Rightarrow> 's \<Rightarrow> (error + step_losses) \<times> 's) \<Rightarrow> batch list \<Rightarrow> 's \<Rightarrow> (error + report) \<times> 's" where
  "run_epoch step loader st =
     (case epoch_loop step loader 0 initial_locals st of
        (Inl e, st') \<Rightarrow> (Inl e, st')
      | (Inr ls, st') \<Rightarrow> (epoch_report ls, st'))"

definition train_epoch ::
  "('g, 'o) tensorflow \<Rightarrow> 'g stage2_trainer \<Rightarrow> batch list \<Rightarrow> int \<Rightarrow> ('g, 'o) tstate \<Rightarrow>
   (error + report) \<times> ('g, 'o) tstate" where
  "train_epoch tf self train_loader epoch_num st = run_epoch (train_step tf self) train_loader st"

definition val_epoch ::
  "('g, 'o) tensorflow \<Rightarrow> 'g stage2_trainer \<Rightarrow> batch list \<Rightarrow> int \<Rightarrow> ('g, 'o) tstate \<Rightarrow>
   (error + report) \<times> ('g, 'o) tstate" where
  "val_epoch tf self val_loader epoch_num st = run_epoch (val_step tf self) val_loader st"

text \<open>
  The losses of the batches of an epoch, one record per batch in the order of the loader:
  what the claims about the reported means call "that component over all batches". An
  exception in a batch leaves no list.
\<close>

fun epoch_batches ::
  "(batch \<Rightarrow> 's \<Rightarrow> (error + step_losses) \<times> 's) \<Rightarrow> batch list \<Rightarrow> 's \<Rightarrow> error + step_losses list" where
  "epoch_batches step [] st = Inr []"
| "epoch_batches step (sample # rest) st =
     (case step sample st of
        (Inl e, st') \<Rightarrow> Inl e
      | (Inr l, st') \<Rightarrow> (case epoch_batches step rest st' of Inl e \<Rightarrow> Inl e | Inr ls \<Rightarrow> Inr (l # ls)))"

text \<open>The sum of scalars (NaN if one of them is) and the mean of a component over the batches.\<close>

definition nan_sum :: "scalar list \<Rightarrow> scalar" where
  "nan_sum xs = foldl nan_add (Some 0) xs"

definition batch_mean :: "(step_losses \<Rightarrow> scalar) \<Rightarrow> step_losses list \<Rightarrow> scalar" where
  "batch_mean component ls = nan_div_nat (nan_sum (map component ls)) (length ls)"

definition is_tensor :: "pyval \<Rightarrow> bool" where
  "is_tensor v = (case v of PyInt _ \<Rightarrow> False | PyTensor _ \<Rightarrow> True)"

text \<open>
  A variable is untouched by the stage-2 model when it is neither a trainable nor a
  non-trainable variable of the stage-2 generator or of the discriminator.
\<close>

definition untouched :: "'g stage2_trainer \<Rightarrow> var \<Rightarrow> bool" where
  "untouched self v =
     (v \<notin> set (trainable_variables (model_generator self))
      \<and> v \<notin> set (non_trainable_variables (model_generator self))
      \<and> v \<notin> set (trainable_variables (model_discriminator self))
      \<and> v \<notin> set (non_trainable_variables (model_discriminator self)))"

text \<open>The report in which every entry is the mean of its component over the batches.\<close>

definition mean_report :: "step_losses list \<Rightarrow> report" where
  "mean_report ls =
     \<lparr>report_generator_loss = batch_mean step_generator_loss ls,
      report_discriminator_loss = batch_mean step_discriminator_loss ls,
      report_kl_loss = batch_mean (\<lambda>l. py_float (step_kl_loss l)) ls,
      report_discriminator_real_loss = batch_mean step_disc_real_loss ls,
      report_discriminator_wrong_loss = batch_mean step_disc_wrong_loss ls,
      report_discriminator_fake_loss = batch_mean step_disc_fake_loss ls\<rparr>"

section \<open>A small trainer on which the definitions can be run\<close>

text \<open>
  A stage-1 generator with variables 0 and 1, a stage-2 generator with variables 2 and 3
  and a discriminator with variables 4 and 5. The discriminator answers every input with
  the logit 1; the gradients are all 1 and the optimizer subtracts the gradient.
\<close>

definition example_logit :: tensor where
  "example_logit = \<lparr>shape = [1, 1], data = [1]\<rparr>"

definition example_image :: tensor where
  "example_image = \<lparr>shape = [1, 2], data = [0, 0]\<rparr>"

definition example_stage_1_generator :: "(nat, tensor \<times> tensor \<times> tensor) kmodel" where
  "example_stage_1_generator =
     \<lparr>layer_name = 0, trainable_variables = [0], non_trainable_variables = [1],
      call = (\<lambda>vs g training inputs.
        \<lparr>returned = (vs 0, vs 1, vs 1), rng_after = Suc g, added_losses = [Some 3],
         moving_statistics = (\<lambda>v. \<lparr>shape = [1], data = [7]\<rparr>)\<rparr>),
      loss = BinaryCrossentropy_from_logits\<rparr>"

definition example_generator :: "(nat, tensor) kmodel" where
  "example_generator =
     \<lparr>layer_name = 1, trainable_variables = [2], non_trainable_variables = [3],
      call = (\<lambda>vs g training inputs.
        \<lparr>returned = example_image, rng_after = g, added_losses = [Some 1],
         moving_statistics = (\<lambda>v. \<lparr>shape = [1], data = [8]\<rparr>)\<rparr>),
      loss = BinaryCrossentropy_from_logits\<rparr>"

definition example_discriminator :: "(nat, tensor) kmodel" where
  "example_discriminator =
     \<lparr>layer_name = 2, trainable_variables = [4], non_trainable_variables = [5],
      call = (\<lambda>vs g training inputs.
        \<lparr>returned = example_logit, rng_after = g, added_losses = [],
         moving_statistics = (\<lambda>v. \<lparr>shape = [1], data = [9]\<rparr>)\<rparr>),
      loss = BinaryCrossentropy_from_logits\<rparr>"

definition example_trainer :: "nat stage2_trainer" where
  "example_trainer =
     \<lparr>model_generator = example_generator, model_discriminator = example_discriminator,
      stage_1_generator = example_stage_1_generator, noise_size = 2\<rparr>"

definition example_tf :: "(nat, nat) tensorflow" where
  "example_tf =
     \<lparr>tf_random_normal = (\<lambda>g dims. (\<lparr>shape = dims, data = replicate (prod_list dims) 0\<rparr>, Suc g)),
      generator_tape_gradient = (\<lambda>vs sample noise vars. map (\<lambda>v. \<lparr>shape = [1], data = [1]\<rparr>) vars),
      discriminator_tape_gradient = (\<lambda>vs sample noise vars. map (\<lambda>v. \<lparr>shape = [1], data = [1]\<rparr>) vars),
      optimizer_rule = (\<lambda>opt v g old. tmap2 (-) old g),
      optimizer_next = (\<lambda>opt gs. Suc opt)\<rparr>"

definition example_batch :: batch where
  "example_batch =
     \<lparr>batch_size = 1, image_large = example_image, wrong_image_large = example_image,
      text_tensor = \<lparr>shape = [1, 1], data = [0]\<rparr>\<rparr>"

definition example_state :: "(nat, nat) tstate" where
  "example_state =
     \<lparr>variables = (\<lambda>v. \<lparr>shape = [1], data = [real v]\<rparr>), rng = 0, losses = (\<lambda>n. []),
      generator_optimizer = 0, discriminator_optimizer = 0\<rparr>"






section \<open>Properties of utils.py\<close>













section \<open>Properties of the checkpoint epoch resolution\<close>

lemmas extract_epoch_num_eval =
  extract_epoch_num_def glob_subdirs_def hidden_def checkpoint_num_def last_but_one_def
  re_search_digits_def is_digit_def int_of_digits_def digit_val_def py_max_def

lemma extract_epoch_num_example:
  "extract_epoch_num ''results/gan/stage-1'' [''model_1'', ''model_3'', ''model_10''] = Inr 10"
  by (simp add: extract_epoch_num_eval)

lemma extract_epoch_num_no_subdirs: "extract_epoch_num results_dir [] = Inl Exception"
  by (simp add: extract_epoch_num_def glob_subdirs_def)

lemma extract_epoch_num_no_candidate:
  "extract_epoch_num ''results/gan/stage-1'' [''viz'', ''logs''] = Inl Exception"
  by (simp add: extract_epoch_num_eval)

text \<open>
  Claim C7. The claim filters on the name of the subdirectory; the function tests
  \<^verbatim>\<open>"model" in directory\<close> on the whole path that glob returns, which starts with
  the results directory. \<^verbatim>\<open>main.py\<close> builds the results directory from the name the
  user gives the model, and writes visualisations to its subdirectory \<^verbatim>\<open>viz\<close>. With
  the subdirectories \<^verbatim>\<open>model_3\<close> and \<^verbatim>\<open>viz\<close>, the resolution gives 3 under
  \<^verbatim>\<open>results/gan/stage-1\<close>; under \<^verbatim>\<open>results/mymodel/stage-1\<close> every subdirectory
  is a candidate, \<^verbatim>\<open>viz\<close> has no digit, and the function ends in the TypeError of
  subscripting \<^verbatim>\<open>None\<close>. With \<^verbatim>\<open>viz\<close> alone it is the same TypeError, where the
  claim has the explicit error of no candidate.
\<close>

theorem extract_epoch_num_filters_on_path:
  "extract_epoch_num ''results/gan/stage-1'' [''model_3'', ''viz''] = Inr 3
   \<and> extract_epoch_num ''results/mymodel/stage-1'' [''model_3'', ''viz''] = Inl TypeError
   \<and> extract_epoch_num ''results/mymodel/stage-1'' [''viz''] = Inl TypeError"
  by (simp add: extract_epoch_num_eval)

section \<open>Properties of the construction of the stage-1 generator\<close>

text \<open>
  Claim C4. When the first element of \<^verbatim>\<open>img_size\<close> is 1 or 3, the construction of the
  stage-1 generator returns a generator with that number of output channels; for every
  other first element it fails with the AssertionError of the channel check.
\<close>

theorem GeneratorStage1_init_channels:
  "(c = 1 \<or> c = 3 \<longrightarrow>
      (\<exists>gen. GeneratorStage1_init (c # dims) lr ces w_i bn_i = Inr gen \<and> num_output_channels gen = c))
   \<and> (c \<noteq> 1 \<and> c \<noteq> 3 \<longrightarrow> GeneratorStage1_init (c # dims) lr ces w_i bn_i = Inl AssertionError)"
  by (auto simp: GeneratorStage1_init_def Generator_init_def generator_base.extend_def)

theorem GeneratorStage1_init_channels_witness:
  "(\<exists>gen. GeneratorStage1_init [3, 64, 64] 0.0002 128 () () = Inr gen \<and> num_output_channels gen = 3)
   \<and> (\<exists>gen. GeneratorStage1_init [1, 64, 64] 0.0002 128 () () = Inr gen \<and> num_output_channels gen = 1)
   \<and> GeneratorStage1_init [2, 64, 64] 0.0002 128 () () = Inl AssertionError"
  using GeneratorStage1_init_channels [of 3 "[64, 64]" "0.0002" 128 "()" "()"]
    GeneratorStage1_init_channels [of 1 "[64, 64]" "0.0002" 128 "()" "()"]
    GeneratorStage1_init_channels [of 2 "[64, 64]" "0.0002" 128 "()" "()"]
  by simp

section \<open>Properties of the learning-rate-decay callback\<close>

text \<open>
  Claim C6. A call with an epoch number on which the callback has not fired yet
  multiplies every learning rate by the decay factor when the epoch number is a positive
  multiple of the period, and leaves the learning rates as they are otherwise. A second
  call with the same epoch number changes nothing. With period 5, factor 0.5 and initial
  learning rate 0.001, the learning rate is unchanged after epochs 1 to 4, is 0.0005 after
  epoch 5 (also when the callback is called twice at epoch 5) and after epochs 6 to 9, and
  is 0.00025 after epoch 10.
\<close>

theorem lr_decay_on_positive_multiples:
  "(last_fired cb \<noteq> Some epoch \<longrightarrow>
      snd (lr_decay_call cb epoch lrs) =
        (if positive_multiple epoch (every_n cb) then map (\<lambda>lr. lr * decay_factor cb) lrs else lrs))
   \<and> snd (lr_decay_call (fst (lr_decay_call cb epoch lrs)) epoch lrs') = lrs'
   \<and> snd (lr_decay_run (LearningRateDecay 0.5 5) [1, 2, 3, 4] [0.001, 0.001]) = [0.001, 0.001]
   \<and> snd (lr_decay_run (LearningRateDecay 0.5 5) [1, 2, 3, 4, 5] [0.001, 0.001]) = [0.0005, 0.0005]
   \<and> snd (lr_decay_run (LearningRateDecay 0.5 5) [1, 2, 3, 4, 5, 5] [0.001, 0.001]) = [0.0005, 0.0005]
   \<and> snd (lr_decay_run (LearningRateDecay 0.5 5) [1, 2, 3, 4, 5, 6, 7, 8, 9] [0.001, 0.001]) = [0.0005, 0.0005]
   \<and> snd (lr_decay_run (LearningRateDecay 0.5 5) [1, 2, 3, 4, 5, 6, 7, 8, 9, 10] [0.001, 0.001])
        = [0.00025, 0.00025]"
proof (intro conjI impI)
  assume "last_fired cb \<noteq> Some epoch"
  then show "snd (lr_decay_call cb epoch lrs) =
      (if positive_multiple epoch (every_n cb) then map (\<lambda>lr. lr * decay_factor cb) lrs else lrs)"
    by (simp add: lr_decay_call_def)
next
  show "snd (lr_decay_call (fst (lr_decay_call cb epoch lrs)) epoch lrs') = lrs'"
    by (cases "positive_multiple epoch (every_n cb) \<and> last_fired cb \<noteq> Some epoch")
      (auto simp: lr_decay_call_def)
qed (simp_all add: lr_decay_call_def LearningRateDecay_def positive_multiple_def)

theorem lr_decay_on_positive_multiples_witness:
  "snd (lr_decay_call (LearningRateDecay 0.5 5) 5 [0.001]) = [0.0005]
   \<and> snd (lr_decay_call (LearningRateDecay 0.5 5) 4 [0.001]) = [0.001]"
  using lr_decay_on_positive_multiples [of "LearningRateDecay 0.5 5" 5 "[0.001]"]
    lr_decay_on_positive_multiples [of "LearningRateDecay 0.5 5" 4 "[0.001]"]
  by (simp add: LearningRateDecay_def positive_multiple_def)

section \<open>Binary cross-entropy: the code's formula and the definition\<close>

lemma ln_sigmoid: "ln (sigmoid x) = - ln (1 + exp (- x))"
proof -
  have pos: "0 < 1 + exp (- x)"
    by (simp add: add_pos_pos)
  show ?thesis
    unfolding sigmoid_def using pos by (simp add: ln_div)
qed

lemma ln_one_minus_sigmoid: "ln (1 - sigmoid x) = - x - ln (1 + exp (- x))"
proof -
  have pos: "0 < 1 + exp (- x)"
    by (simp add: add_pos_pos)
  then have "1 - sigmoid x = exp (- x) / (1 + exp (- x))"
    unfolding sigmoid_def by (simp add: field_simps)
  then have "ln (1 - sigmoid x) = ln (exp (- x)) - ln (1 + exp (- x))"
    using pos by (simp add: ln_div)
  then show ?thesis
    by simp
qed

lemma softplus_flip: "ln (1 + exp (- x)) = - x + ln (1 + exp (x::real))"
proof -
  have "exp (- x) * exp x = 1"
    by (simp add: exp_minus field_simps)
  then have "1 + exp (- x) = exp (- x) * (1 + exp x)"
    by (simp add: distrib_left)
  moreover have "0 < 1 + exp x"
    by (simp add: add_pos_pos)
  ultimately show ?thesis
    by (simp add: ln_mult)
qed

lemma sce_eq_bce: "max x 0 - x * z + ln (1 + exp (- \<bar>x\<bar>)) = bce z x"
proof (cases "0 \<le> x")
  case True
  then show ?thesis
    by (simp add: bce_def ln_sigmoid ln_one_minus_sigmoid algebra_simps)
next
  case False
  then have "max x 0 - x * z + ln (1 + exp (- \<bar>x\<bar>)) = - x * z + ln (1 + exp x)"
    by simp
  also have "\<dots> = bce z x"
    using softplus_flip [of x]
    by (simp add: bce_def ln_sigmoid ln_one_minus_sigmoid algebra_simps)
  finally show ?thesis .
qed

section \<open>The epoch loop\<close>

lemma accumulate_batch_idx: "batch_idx (accumulate ls l) = batch_idx ls"
  by (simp add: accumulate_def)

lemma epoch_loop_batch_idx:
  "epoch_loop step bs i ls st = (Inr ls', st') \<Longrightarrow> bs \<noteq> [] \<Longrightarrow> batch_idx ls' = Some (i + length bs - 1)"
proof (induction bs arbitrary: i ls st)
  case Nil
  then show ?case by simp
next
  case (Cons b bs)
  obtain res st1 where step: "step b st = (res, st1)"
    by (cases "step b st")
  show ?case
  proof (cases res)
    case (Inl e)
    with Cons.prems step show ?thesis by simp
  next
    case (Inr l)
    with Cons.prems step
    have run: "epoch_loop step bs (Suc i) (accumulate (ls\<lparr>batch_idx := Some i\<rparr>) l) st1 = (Inr ls', st')"
      by simp
    show ?thesis
    proof (cases "bs = []")
      case True
      with run show ?thesis by (auto simp: accumulate_batch_idx)
    next
      case False
      from Cons.IH [OF run False] show ?thesis by simp
    qed
  qed
qed

lemma epoch_loop_accumulators:
  "epoch_batches step bs st = Inr tr \<Longrightarrow>
   \<exists>ls' st'. epoch_loop step bs i ls st = (Inr ls', st') \<and> length tr = length bs
     \<and> acc_generator_loss ls' = foldl py_add (acc_generator_loss ls) (map (\<lambda>l. PyTensor (step_generator_loss l)) tr)
     \<and> acc_discriminator_loss ls' = foldl py_add (acc_discriminator_loss ls) (map (\<lambda>l. PyTensor (step_discriminator_loss l)) tr)
     \<and> acc_kl_loss ls' = foldl py_add (acc_kl_loss ls) (map step_kl_loss tr)
     \<and> acc_disc_real_loss ls' = foldl py_add (acc_disc_real_loss ls) (map (\<lambda>l. PyTensor (step_disc_real_loss l)) tr)
     \<and> acc_disc_wrong_loss ls' = foldl py_add (acc_disc_wrong_loss ls) (map (\<lambda>l. PyTensor (step_disc_wrong_loss l)) tr)
     \<and> acc_disc_fake_loss ls' = foldl py_add (acc_disc_fake_loss ls) (map (\<lambda>l. PyTensor (step_disc_fake_loss l)) tr)"
proof (induction bs arbitrary: i ls st tr)
  case Nil
  then show ?case by simp
next
  case (Cons b bs)
  obtain res st1 where step: "step b st = (res, st1)"
    by (cases "step b st")
  from Cons.prems step obtain l where res: "res = Inr l"
    by (cases res) auto
  from Cons.prems step res obtain tr' where tr': "epoch_batches step bs st1 = Inr tr'" and tr: "tr = l # tr'"
    by (cases "epoch_batches step bs st1") auto
  from Cons.IH [OF tr', of "Suc i" "accumulate (ls\<lparr>batch_idx := Some i\<rparr>) l"]
  show ?case
    using step res tr by (auto simp: accumulate_def)
qed

lemma foldl_py_add_tensor:
  "foldl py_add (PyTensor a) vs = PyTensor (foldl nan_add a (map py_float vs))"
proof (induction vs arbitrary: a)
  case Nil
  then show ?case by simp
next
  case (Cons v vs)
  then show ?case by (cases v) (simp_all add: py_float_def)
qed

lemma foldl_py_add_int:
  "\<exists>v\<in>set vs. is_tensor v \<Longrightarrow>
   foldl py_add (PyInt a) vs = PyTensor (foldl nan_add (Some (real_of_int a)) (map py_float vs))"
proof (induction vs arbitrary: a)
  case Nil
  then show ?case by simp
next
  case (Cons v vs)
  show ?case
  proof (cases v)
    case (PyInt b)
    with Cons.prems have "\<exists>v\<in>set vs. is_tensor v"
      by (simp add: is_tensor_def)
    from Cons.IH [OF this, of "a + b"] PyInt show ?thesis
      by (simp add: py_float_def nan_add_def)
  next
    case (PyTensor t)
    have "py_float (PyTensor t) = t"
      by (simp add: py_float_def)
    with PyTensor show ?thesis
      by (simp add: foldl_py_add_tensor)
  qed
qed

lemma foldl_py_add_tensors:
  "tr \<noteq> [] \<Longrightarrow> foldl py_add (PyInt 0) (map (\<lambda>l. PyTensor (f l)) tr) = PyTensor (nan_sum (map f tr))"
proof -
  assume "tr \<noteq> []"
  then have "\<exists>v\<in>set (map (\<lambda>l. PyTensor (f l)) tr). is_tensor v"
    by (cases tr) (auto simp: is_tensor_def)
  from foldl_py_add_int [OF this, of 0] show ?thesis
    by (simp add: nan_sum_def comp_def py_float_def)
qed

lemma foldl_py_add_kl:
  "\<exists>l\<in>set tr. is_tensor (step_kl_loss l) \<Longrightarrow>
   foldl py_add (PyInt 0) (map step_kl_loss tr) = PyTensor (nan_sum (map (\<lambda>l. py_float (step_kl_loss l)) tr))"
proof -
  assume "\<exists>l\<in>set tr. is_tensor (step_kl_loss l)"
  then have "\<exists>v\<in>set (map step_kl_loss tr). is_tensor v"
    by auto
  from foldl_py_add_int [OF this, of 0] show ?thesis
    by (simp add: nan_sum_def comp_def)
qed

lemma report_entry_tensor: "report_entry (PyTensor t) (Some i) = Inr (nan_div_nat t (i + 1))"
  by (simp add: report_entry_def numpy_def)

lemma run_epoch_means:
  assumes ne: "bs \<noteq> []"
    and tr: "epoch_batches step bs st = Inr tr"
    and kl: "\<exists>l\<in>set tr. is_tensor (step_kl_loss l)"
  shows "fst (run_epoch step bs st) = Inr (mean_report tr)"
proof -
  from epoch_loop_accumulators [OF tr, of 0 initial_locals]
  obtain ls' st' where run: "epoch_loop step bs 0 initial_locals st = (Inr ls', st')"
    and len: "length tr = length bs"
    and g: "acc_generator_loss ls' = foldl py_add (PyInt 0) (map (\<lambda>l. PyTensor (step_generator_loss l)) tr)"
    and d: "acc_discriminator_loss ls' = foldl py_add (PyInt 0) (map (\<lambda>l. PyTensor (step_discriminator_loss l)) tr)"
    and k: "acc_kl_loss ls' = foldl py_add (PyInt 0) (map step_kl_loss tr)"
    and r: "acc_disc_real_loss ls' = foldl py_add (PyInt 0) (map (\<lambda>l. PyTensor (step_disc_real_loss l)) tr)"
    and w: "acc_disc_wrong_loss ls' = foldl py_add (PyInt 0) (map (\<lambda>l. PyTensor (step_disc_wrong_loss l)) tr)"
    and f: "acc_disc_fake_loss ls' = foldl py_add (PyInt 0) (map (\<lambda>l. PyTensor (step_disc_fake_loss l)) tr)"
    by (auto simp: initial_locals_def)
  from ne len have tr_ne: "tr \<noteq> []"
    by auto
  from epoch_loop_batch_idx [OF run ne] have idx: "batch_idx ls' = Some (length bs - 1)"
    by simp
  from ne have suc: "Suc (length bs - Suc 0) = length bs"
    by (cases bs) auto
  show ?thesis
    by (simp add: run_epoch_def run epoch_report_def idx g d k r w f foldl_py_add_tensors [OF tr_ne]
        foldl_py_add_kl [OF kl] report_entry_tensor suc batch_mean_def len mean_report_def)
qed

section \<open>Which variables a training step writes\<close>

lemma keras_call_not_training: "variables (snd (keras_call m inputs False st)) = variables st"
  by (simp add: keras_call_def Let_def)

lemma keras_call_frame:
  "v \<notin> set (non_trainable_variables m) \<Longrightarrow>
   variables (snd (keras_call m inputs training st)) v = variables st v"
  by (simp add: keras_call_def Let_def)

lemma fold_assign_frame:
  "v \<notin> snd ` set gvs \<Longrightarrow> fold (\<lambda>(g, u) s. s(u := rule u g (s u))) gvs vs v = vs v"
  by (induction gvs arbitrary: vs) (auto simp: split_beta)

lemma apply_gradients_frame:
  "v \<notin> set vars \<Longrightarrow> fst (apply_gradients tf opt (zip grads vars) vs) v = vs v"
proof -
  assume "v \<notin> set vars"
  then have "v \<notin> snd ` set (zip grads vars)"
    by (auto dest: set_zip_rightD)
  then show ?thesis
    unfolding apply_gradients_def by (simp add: fold_assign_frame)
qed

lemma forward_pass_frame:
  assumes "v \<notin> set (non_trainable_variables (model_generator self))"
    and "v \<notin> set (non_trainable_variables (model_discriminator self))"
  shows "variables (snd (forward_pass tf self training sample st)) v = variables st v"
  using assms
  by (simp add: forward_pass_def Let_def split_beta keras_call_frame keras_call_not_training)

lemma update_gradients_frame:
  assumes "v \<notin> set (trainable_variables (model_generator self))"
    and "v \<notin> set (trainable_variables (model_discriminator self))"
  shows "variables (update_gradients tf self vs0 sample noise_z st) v = variables st v"
  using assms
  by (simp add: update_gradients_def Let_def split_beta apply_gradients_frame)

lemma train_step_frame:
  assumes "untouched self v"
  shows "variables (snd (train_step tf self sample st)) v = variables st v"
proof -
  obtain res st' where fp: "forward_pass tf self True sample st = (res, st')"
    by (cases "forward_pass tf self True sample st")
  from forward_pass_frame [of v self tf True sample st] assms fp
  have st': "variables st' v = variables st v"
    by (simp add: untouched_def)
  show ?thesis
  proof (cases res)
    case (Inl e)
    with fp st' show ?thesis by (simp add: train_step_def)
  next
    case (Inr p)
    with fp st' assms show ?thesis
      by (simp add: train_step_def split_beta update_gradients_frame untouched_def)
  qed
qed

lemma epoch_loop_frame:
  assumes step: "\<And>b s. f (snd (step b s)) = f s"
  shows "f (snd (epoch_loop step bs i ls st)) = f st"
proof (induction bs arbitrary: i ls st)
  case Nil
  then show ?case by simp
next
  case (Cons b bs)
  obtain res st1 where s: "step b st = (res, st1)"
    by (cases "step b st")
  from step [of b st] s have st1: "f st1 = f st"
    by simp
  show ?case
  proof (cases res)
    case (Inl e)
    with s st1 show ?thesis by simp
  next
    case (Inr l)
    with s st1 Cons.IH show ?thesis by simp
  qed
qed

lemma run_epoch_frame:
  assumes step: "\<And>b s. f (snd (step b s)) = f s"
  shows "f (snd (run_epoch step bs st)) = f st"
proof -
  obtain res st' where r: "epoch_loop step bs 0 initial_locals st = (res, st')"
    by (cases "epoch_loop step bs 0 initial_locals st")
  from epoch_loop_frame [of f step bs 0 initial_locals st, OF step] r have "f st' = f st"
    by simp
  with r show ?thesis
    by (cases res) (simp_all add: run_epoch_def)
qed

text \<open>
  Claim C2. When no variable of the stage-1 generator is a variable of the stage-2
  generator or of the discriminator, every variable of the stage-1 generator, trainable or
  not, has after a stage-2 training epoch the value it had before, whether the epoch
  returns its report or ends in an exception: the stage-1 generator is only called with
  training disabled, and the optimizers assign only the trainable variables of the
  stage-2 generator and of the discriminator.
\<close>

theorem stage1_generator_frozen:
  "set (trainable_variables (stage_1_generator self) @ non_trainable_variables (stage_1_generator self))
     \<inter> set (trainable_variables (model_generator self) @ non_trainable_variables (model_generator self)
            @ trainable_variables (model_discriminator self)
            @ non_trainable_variables (model_discriminator self)) = {}
   \<Longrightarrow> \<forall>v \<in> set (trainable_variables (stage_1_generator self) @ non_trainable_variables (stage_1_generator self)).
         variables (snd (train_epoch tf self train_loader epoch_num st)) v = variables st v"
proof
  fix v
  assume disj: "set (trainable_variables (stage_1_generator self) @ non_trainable_variables (stage_1_generator self))
     \<inter> set (trainable_variables (model_generator self) @ non_trainable_variables (model_generator self)
            @ trainable_variables (model_discriminator self)
            @ non_trainable_variables (model_discriminator self)) = {}"
    and v: "v \<in> set (trainable_variables (stage_1_generator self) @ non_trainable_variables (stage_1_generator self))"
  then have u: "untouched self v"
    unfolding untouched_def by auto
  have "(\<lambda>s. variables s v) (snd (run_epoch (train_step tf self) train_loader st)) = (\<lambda>s. variables s v) st"
    by (rule run_epoch_frame) (simp add: train_step_frame [OF u])
  then show "variables (snd (train_epoch tf self train_loader epoch_num st)) v = variables st v"
    by (simp add: train_epoch_def)
qed

lemmas example_defs = example_logit_def example_image_def example_stage_1_generator_def
  example_generator_def example_discriminator_def example_trainer_def example_tf_def
  example_batch_def example_state_def

theorem stage1_generator_frozen_witness:
  "variables (snd (train_epoch example_tf example_trainer [example_batch, example_batch] 1 example_state)) 0
     = variables example_state 0
   \<and> variables (snd (train_epoch example_tf example_trainer [example_batch, example_batch] 1 example_state)) 1
     = variables example_state 1"
  using stage1_generator_frozen [of example_trainer example_tf "[example_batch, example_batch]" 1 example_state]
  by (simp add: example_trainer_def example_stage_1_generator_def example_generator_def
      example_discriminator_def)

text \<open>
  In the example the epoch does write a variable of the stage-2 generator.
\<close>

lemma example_generator_variable_written: "variables (snd (train_epoch example_tf example_trainer [example_batch] 1 example_state)) 2 = \<lparr>shape = [1], data = [1]\<rparr>"
  by (simp add: train_epoch_def run_epoch_def train_step_def forward_pass_def keras_call_def Let_def example_defs numeral_2_eq_2 split_beta
     batch_losses_def generator_kl_loss_def py_sum_def update_gradients_def apply_gradients_def tmap2_def split: sum.splits prod.splits)

section \<open>The epoch means\<close>

lemma epoch_batches_total:
  assumes "\<And>b st. b \<in> set bs \<Longrightarrow> \<exists>l. fst (step b st) = Inr l \<and> P l"
  shows "\<exists>tr. epoch_batches step bs st = Inr tr \<and> length tr = length bs \<and> (\<forall>l\<in>set tr. P l)"
  using assms
proof (induction bs arbitrary: st)
  case Nil
  then show ?case by simp
next
  case (Cons b bs)
  from Cons.prems [of b st] obtain l where l: "fst (step b st) = Inr l" and p: "P l"
    by auto
  then obtain st1 where s: "step b st = (Inr l, st1)"
    by (cases "step b st") auto
  from Cons.IH [of st1] Cons.prems
  obtain tr where "epoch_batches step bs st1 = Inr tr" "length tr = length bs" "\<forall>l\<in>set tr. P l"
    by auto
  with s p show ?case
    by simp
qed

lemma epoch_loop_total:
  assumes "\<And>b st. b \<in> set bs \<Longrightarrow> \<exists>l. fst (step b st) = Inr l"
  shows "\<exists>ls'. fst (epoch_loop step bs i ls st) = Inr ls'"
proof -
  from epoch_batches_total [of bs step "\<lambda>l. True" st] assms
  obtain tr where "epoch_batches step bs st = Inr tr"
    by auto
  from epoch_loop_accumulators [OF this, of i ls] show ?thesis
    by auto
qed

lemma example_train_step:
  "\<exists>l. fst (train_step example_tf example_trainer example_batch st) = Inr l \<and> is_tensor (step_kl_loss l)"
  by (simp add: train_step_def forward_pass_def keras_call_def Let_def example_defs numeral_2_eq_2
      split_beta batch_losses_def generator_kl_loss_def py_sum_def is_tensor_def)

lemma example_val_step:
  "\<exists>l. fst (val_step example_tf example_trainer example_batch st) = Inr l \<and> is_tensor (step_kl_loss l)"
  by (simp add: val_step_def forward_pass_def keras_call_def Let_def example_defs numeral_2_eq_2
      split_beta batch_losses_def generator_kl_loss_def py_sum_def is_tensor_def)

text \<open>
  Claim C9. For a loader with at least one batch on which no batch raises, and on which
  the generator's losses are a tensor for at least one batch (they are for every batch
  when the generator adds its KL term in each forward pass), the training epoch and the
  validation epoch return a report, and each of its six entries is the sum of that
  component over the batches divided by the number of batches. The generator loss of a
  batch includes its KL term, as in the code.
\<close>

theorem epoch_report_is_mean_over_batches:
  "loader \<noteq> [] \<longrightarrow>
   (epoch_batches (train_step tf self) loader st = Inr ls
      \<and> (\<exists>l\<in>set ls. is_tensor (step_kl_loss l)) \<longrightarrow>
    length ls = length loader
      \<and> fst (train_epoch tf self loader epoch_num st) = Inr (mean_report ls))
   \<and> (epoch_batches (val_step tf self) loader st = Inr ls
      \<and> (\<exists>l\<in>set ls. is_tensor (step_kl_loss l)) \<longrightarrow>
    length ls = length loader
      \<and> fst (val_epoch tf self loader epoch_num st) = Inr (mean_report ls))"
proof (intro impI conjI)
  assume ne: "loader \<noteq> []"
    and h: "epoch_batches (train_step tf self) loader st = Inr ls \<and> (\<exists>l\<in>set ls. is_tensor (step_kl_loss l))"
  from h epoch_loop_accumulators [of "train_step tf self" loader st ls 0 initial_locals]
  show "length ls = length loader"
    by auto
  from h run_epoch_means [OF ne, of "train_step tf self" st ls]
  show "fst (train_epoch tf self loader epoch_num st) = Inr (mean_report ls)"
    by (simp add: train_epoch_def)
next
  assume ne: "loader \<noteq> []"
    and h: "epoch_batches (val_step tf self) loader st = Inr ls \<and> (\<exists>l\<in>set ls. is_tensor (step_kl_loss l))"
  from h epoch_loop_accumulators [of "val_step tf self" loader st ls 0 initial_locals]
  show "length ls = length loader"
    by auto
  from h run_epoch_means [OF ne, of "val_step tf self" st ls]
  show "fst (val_epoch tf self loader epoch_num st) = Inr (mean_report ls)"
    by (simp add: val_epoch_def)
qed

theorem epoch_report_is_mean_over_batches_witness:
  "(\<exists>ls. epoch_batches (train_step example_tf example_trainer) [example_batch, example_batch] example_state
           = Inr ls
         \<and> length ls = 2
         \<and> fst (train_epoch example_tf example_trainer [example_batch, example_batch] 1 example_state)
             = Inr (mean_report ls))
   \<and> (\<exists>ls. epoch_batches (val_step example_tf example_trainer) [example_batch, example_batch] example_state
           = Inr ls
         \<and> length ls = 2
         \<and> fst (val_epoch example_tf example_trainer [example_batch, example_batch] 1 example_state)
             = Inr (mean_report ls))"
proof
  from epoch_batches_total [of "[example_batch, example_batch]" "train_step example_tf example_trainer"
      "\<lambda>l. is_tensor (step_kl_loss l)" example_state] example_train_step
  obtain ls where ls: "epoch_batches (train_step example_tf example_trainer)
        [example_batch, example_batch] example_state = Inr ls"
    and len: "length ls = 2" and kl: "\<forall>l\<in>set ls. is_tensor (step_kl_loss l)"
    by auto
  from len kl have "\<exists>l\<in>set ls. is_tensor (step_kl_loss l)"
    by (cases ls) auto
  with epoch_report_is_mean_over_batches [of "[example_batch, example_batch]" example_tf example_trainer
      example_state ls 1] ls len
  show "\<exists>ls. epoch_batches (train_step example_tf example_trainer) [example_batch, example_batch] example_state
           = Inr ls
         \<and> length ls = 2
         \<and> fst (train_epoch example_tf example_trainer [example_batch, example_batch] 1 example_state)
             = Inr (mean_report ls)"
    by auto
next
  from epoch_batches_total [of "[example_batch, example_batch]" "val_step example_tf example_trainer"
      "\<lambda>l. is_tensor (step_kl_loss l)" example_state] example_val_step
  obtain ls where ls: "epoch_batches (val_step example_tf example_trainer)
        [example_batch, example_batch] example_state = Inr ls"
    and len: "length ls = 2" and kl: "\<forall>l\<in>set ls. is_tensor (step_kl_loss l)"
    by auto
  from len kl have "\<exists>l\<in>set ls. is_tensor (step_kl_loss l)"
    by (cases ls) auto
  with epoch_report_is_mean_over_batches [of "[example_batch, example_batch]" example_tf example_trainer
      example_state ls 1] ls len
  show "\<exists>ls. epoch_batches (val_step example_tf example_trainer) [example_batch, example_batch] example_state
           = Inr ls
         \<and> length ls = 2
         \<and> fst (val_epoch example_tf example_trainer [example_batch, example_batch] 1 example_state)
             = Inr (mean_report ls)"
    by auto
qed

text \<open>
  Claim C10. On a loader without batches, the training epoch and the validation epoch
  end in an AttributeError instead of a report: the loop leaves the counter unbound and
  the accumulators at the integer 0, and the first entry of the report calls
  \<^verbatim>\<open>numpy()\<close> on that integer. On a loader with batches, when the loop completes,
  the counter is bound and the divisor \<^verbatim>\<open>batch_idx + 1\<close> is the number of batches.
\<close>

theorem empty_loader_fails:
  "fst (train_epoch tf self [] epoch_num st) = Inl AttributeError
   \<and> fst (val_epoch tf self [] epoch_num st) = Inl AttributeError
   \<and> fst (epoch_loop (train_step tf self) [] 0 initial_locals st) = Inr initial_locals
   \<and> fst (epoch_loop (val_step tf self) [] 0 initial_locals st) = Inr initial_locals
   \<and> batch_idx initial_locals = None
   \<and> numpy (acc_generator_loss initial_locals) = Inl AttributeError
   \<and> (loader \<noteq> [] \<longrightarrow>
        fst (epoch_loop (train_step tf self) loader 0 initial_locals st) = Inr ls \<longrightarrow>
        (\<exists>i. batch_idx ls = Some i \<and> i + 1 = length loader))
   \<and> (loader \<noteq> [] \<longrightarrow>
        fst (epoch_loop (val_step tf self) loader 0 initial_locals st) = Inr ls \<longrightarrow>
        (\<exists>i. batch_idx ls = Some i \<and> i + 1 = length loader))"
proof (intro conjI impI)
  show "fst (train_epoch tf self [] epoch_num st) = Inl AttributeError"
    by (simp add: train_epoch_def run_epoch_def epoch_report_def report_entry_def numpy_def
        initial_locals_def)
  show "fst (val_epoch tf self [] epoch_num st) = Inl AttributeError"
    by (simp add: val_epoch_def run_epoch_def epoch_report_def report_entry_def numpy_def
        initial_locals_def)
  show "fst (epoch_loop (train_step tf self) [] 0 initial_locals st) = Inr initial_locals"
    by simp
  show "fst (epoch_loop (val_step tf self) [] 0 initial_locals st) = Inr initial_locals"
    by simp
  show "batch_idx initial_locals = None"
    by (simp add: initial_locals_def)
  show "numpy (acc_generator_loss initial_locals) = Inl AttributeError"
    by (simp add: initial_locals_def numpy_def)
next
  assume ne: "loader \<noteq> []"
    and run: "fst (epoch_loop (train_step tf self) loader 0 initial_locals st) = Inr ls"
  then obtain st' where "epoch_loop (train_step tf self) loader 0 initial_locals st = (Inr ls, st')"
    by (cases "epoch_loop (train_step tf self) loader 0 initial_locals st") auto
  from epoch_loop_batch_idx [OF this ne] ne
  show "\<exists>i. batch_idx ls = Some i \<and> i + 1 = length loader"
    by (cases loader) auto
next
  assume ne: "loader \<noteq> []"
    and run: "fst (epoch_loop (val_step tf self) loader 0 initial_locals st) = Inr ls"
  then obtain st' where "epoch_loop (val_step tf self) loader 0 initial_locals st = (Inr ls, st')"
    by (cases "epoch_loop (val_step tf self) loader 0 initial_locals st") auto
  from epoch_loop_batch_idx [OF this ne] ne
  show "\<exists>i. batch_idx ls = Some i \<and> i + 1 = length loader"
    by (cases loader) auto
qed

theorem empty_loader_fails_witness:
  "(\<exists>ls. fst (epoch_loop (train_step example_tf example_trainer) [example_batch, example_batch] 0
            initial_locals example_state) = Inr ls
         \<and> (\<exists>i. batch_idx ls = Some i \<and> i + 1 = 2))
   \<and> (\<exists>ls. fst (epoch_loop (val_step example_tf example_trainer) [example_batch, example_batch] 0
            initial_locals example_state) = Inr ls
         \<and> (\<exists>i. batch_idx ls = Some i \<and> i + 1 = 2))"
proof
  from epoch_loop_total [of "[example_batch, example_batch]" "train_step example_tf example_trainer"
      0 initial_locals example_state] example_train_step
  obtain ls where ls: "fst (epoch_loop (train_step example_tf example_trainer)
      [example_batch, example_batch] 0 initial_locals example_state) = Inr ls"
    by auto
  with empty_loader_fails [of example_tf example_trainer 1 example_state "[example_batch, example_batch]" ls]
  show "\<exists>ls. fst (epoch_loop (train_step example_tf example_trainer) [example_batch, example_batch] 0
            initial_locals example_state) = Inr ls
         \<and> (\<exists>i. batch_idx ls = Some i \<and> i + 1 = 2)"
    by auto
next
  from epoch_loop_total [of "[example_batch, example_batch]" "val_step example_tf example_trainer"
      0 initial_locals example_state] example_val_step
  obtain ls where ls: "fst (epoch_loop (val_step example_tf example_trainer)
      [example_batch, example_batch] 0 initial_locals example_state) = Inr ls"
    by auto
  with empty_loader_fails [of example_tf example_trainer 1 example_state "[example_batch, example_batch]" ls]
  show "\<exists>ls. fst (epoch_loop (val_step example_tf example_trainer) [example_batch, example_batch] 0
            initial_locals example_state) = Inr ls
         \<and> (\<exists>i. batch_idx ls = Some i \<and> i + 1 = 2)"
    by auto
qed

section \<open>The KL term of the stage-1 generator\<close>





section \<open>The discriminator loss\<close>

lemma map2_replicate_right:
  "map2 f xs (replicate (length xs) z) = map (\<lambda>x. f x z) xs"
  by (induction xs) auto

lemma sce_data:
  "data labels = replicate (length (data logits)) z \<Longrightarrow>
   data (sigmoid_cross_entropy_with_logits labels logits) = map (bce z) (data logits)"
  by (simp add: sigmoid_cross_entropy_with_logits_def tmap2_def map2_replicate_right sce_eq_bce)

lemma BinaryCrossentropy_mean_bce:
  assumes "data y_true = replicate (length (data y_pred)) z" and "data y_pred \<noteq> []"
  shows "BinaryCrossentropy_from_logits y_true y_pred = Some (mean_bce z y_pred)"
  using assms by (simp add: BinaryCrossentropy_from_logits_def Let_def sce_data mean_bce_def)

lemma reduce_mean_sce:
  assumes "data labels = replicate (length (data logits)) z" and "data logits \<noteq> []"
  shows "reduce_mean (sigmoid_cross_entropy_with_logits labels logits) = Some (mean_bce z logits)"
  using assms by (simp add: reduce_mean_def sce_data mean_bce_def)

lemma DiscriminatorStage1_loss_bce:
  assumes "data r \<noteq> []" and "data w \<noteq> []" and "data f \<noteq> []"
  shows "DiscriminatorStage1_loss r w f = Some (mean_bce 1 r + 0.5 * mean_bce 0 w + 0.5 * mean_bce 0 f)"
proof -
  have "reduce_mean (sigmoid_cross_entropy_with_logits (ones_like r) r) = Some (mean_bce 1 r)"
    by (rule reduce_mean_sce) (simp_all add: ones_like_def assms)
  moreover have "reduce_mean (sigmoid_cross_entropy_with_logits (zeros_like w) w) = Some (mean_bce 0 w)"
    by (rule reduce_mean_sce) (simp_all add: zeros_like_def assms)
  moreover have "reduce_mean (sigmoid_cross_entropy_with_logits (zeros_like f) f) = Some (mean_bce 0 f)"
    by (rule reduce_mean_sce) (simp_all add: zeros_like_def assms)
  ultimately show ?thesis
    by (simp add: DiscriminatorStage1_loss_def Let_def nan_add_def nan_mul_def algebra_simps)
qed

lemma batch_losses_bce:
  assumes bce: "loss (model_discriminator self) = BinaryCrossentropy_from_logits"
    and target: "data real_target = replicate (length (data r)) z"
    and ne: "data r \<noteq> []" "data w \<noteq> []" "data f \<noteq> []"
  shows "step_disc_real_loss (batch_losses self real_target r w f st) = Some (mean_bce z r)
    \<and> step_disc_wrong_loss (batch_losses self real_target r w f st) = Some (mean_bce 0 w)
    \<and> step_disc_fake_loss (batch_losses self real_target r w f st) = Some (mean_bce 0 f)
    \<and> step_discriminator_loss (batch_losses self real_target r w f st)
        = Some (mean_bce z r + 0.5 * mean_bce 0 w + 0.5 * mean_bce 0 f)"
proof -
  have "BinaryCrossentropy_from_logits real_target r = Some (mean_bce z r)"
    by (rule BinaryCrossentropy_mean_bce) (simp_all add: target ne)
  moreover have "BinaryCrossentropy_from_logits (zeros_like w) w = Some (mean_bce 0 w)"
    by (rule BinaryCrossentropy_mean_bce) (simp_all add: zeros_like_def ne)
  moreover have "BinaryCrossentropy_from_logits (zeros_like f) f = Some (mean_bce 0 f)"
    by (rule BinaryCrossentropy_mean_bce) (simp_all add: zeros_like_def ne)
  ultimately show ?thesis
    by (simp add: batch_losses_def Let_def bce nan_add_def nan_mul_def)
qed

lemma example_forward_pass:
  "fst (forward_pass example_tf example_trainer training example_batch st)
   = Inr (\<lparr>shape = [1, 2], data = [0, 0]\<rparr>, example_logit, example_logit, example_logit)"
  by (simp add: forward_pass_def keras_call_def Let_def example_defs numeral_2_eq_2)

text \<open>
  Claim C1, as stated, fails on the training step of stage 2. The example discriminator
  gives the logit 1 on the real image; the real component of the training step is the
  cross-entropy against the target 0.9, which is \<open>0.1 + ln (1 + exp (- 1))\<close>, and not
  the cross-entropy against the target 1, which is \<open>ln (1 + exp (- 1))\<close>.
\<close>

theorem stage2_train_real_target_counterexample:
  "map_sum id step_disc_real_loss (fst (train_step example_tf example_trainer example_batch example_state))
     \<noteq> Inr (BinaryCrossentropy_from_logits (ones_like example_logit) example_logit)"
proof -
  have "fst (train_step example_tf example_trainer example_batch example_state)
      = Inr (batch_losses example_trainer (fill (shape example_logit) 0.9) example_logit example_logit
               example_logit
               (snd (forward_pass example_tf example_trainer True example_batch example_state)))"
    using example_forward_pass [of True example_state]
    by (cases "forward_pass example_tf example_trainer True example_batch example_state")
      (simp add: train_step_def)
  moreover have "step_disc_real_loss (batch_losses example_trainer (fill (shape example_logit) 0.9)
      example_logit example_logit example_logit st) = Some (1 - 0.9 + ln (1 + exp (- 1)))" for st :: "(nat, nat) tstate"
    by (simp add: batch_losses_def Let_def example_trainer_def example_discriminator_def
        BinaryCrossentropy_from_logits_def sigmoid_cross_entropy_with_logits_def tmap2_def fill_def
        example_logit_def)
  moreover have "BinaryCrossentropy_from_logits (ones_like example_logit) example_logit
      = Some (ln (1 + exp (- 1)))"
    by (simp add: BinaryCrossentropy_from_logits_def sigmoid_cross_entropy_with_logits_def tmap2_def
        ones_like_def example_logit_def Let_def)
  ultimately show ?thesis
    by simp
qed

text \<open>
  Claim C1, amended. The discriminator loss is the real loss plus half the wrong loss
  plus half the fake loss, each the mean binary cross-entropy of the logits, with target 0
  for the wrong and the fake images. The target of the real images is 1 in
  \<^verbatim>\<open>DiscriminatorStage1.loss\<close> and in the validation step of stage 2, and 0.9 in the
  training step of stage 2. (Predictions with at least one element; in the stage-2
  trainer the discriminator's loss is the binary cross-entropy on logits that the
  stage-1 discriminator sets.)
\<close>

theorem discriminator_loss_weighted_sum:
  "(data r \<noteq> [] \<and> data w \<noteq> [] \<and> data f \<noteq> [] \<longrightarrow>
      DiscriminatorStage1_loss r w f = Some (mean_bce 1 r + 0.5 * mean_bce 0 w + 0.5 * mean_bce 0 f))
   \<and> (loss (model_discriminator self) = BinaryCrossentropy_from_logits
        \<and> fst (forward_pass tf self True sample st) = Inr (noise_z, r, w, f)
        \<and> wf_tensor r \<and> data r \<noteq> [] \<and> data w \<noteq> [] \<and> data f \<noteq> [] \<longrightarrow>
      (\<exists>l. fst (train_step tf self sample st) = Inr l
         \<and> step_disc_real_loss l = Some (mean_bce 0.9 r)
         \<and> step_disc_wrong_loss l = Some (mean_bce 0 w)
         \<and> step_disc_fake_loss l = Some (mean_bce 0 f)
         \<and> step_discriminator_loss l = Some (mean_bce 0.9 r + 0.5 * mean_bce 0 w + 0.5 * mean_bce 0 f)))
   \<and> (loss (model_discriminator self) = BinaryCrossentropy_from_logits
        \<and> fst (forward_pass tf self False sample st) = Inr (noise_z, r, w, f)
        \<and> data r \<noteq> [] \<and> data w \<noteq> [] \<and> data f \<noteq> [] \<longrightarrow>
      (\<exists>l. fst (val_step tf self sample st) = Inr l
         \<and> step_disc_real_loss l = Some (mean_bce 1 r)
         \<and> step_disc_wrong_loss l = Some (mean_bce 0 w)
         \<and> step_disc_fake_loss l = Some (mean_bce 0 f)
         \<and> step_discriminator_loss l = Some (mean_bce 1 r + 0.5 * mean_bce 0 w + 0.5 * mean_bce 0 f)))"
proof (intro conjI impI)
  assume "data r \<noteq> [] \<and> data w \<noteq> [] \<and> data f \<noteq> []"
  then show "DiscriminatorStage1_loss r w f = Some (mean_bce 1 r + 0.5 * mean_bce 0 w + 0.5 * mean_bce 0 f)"
    by (simp add: DiscriminatorStage1_loss_bce)
next
  assume h: "loss (model_discriminator self) = BinaryCrossentropy_from_logits
        \<and> fst (forward_pass tf self True sample st) = Inr (noise_z, r, w, f)
        \<and> wf_tensor r \<and> data r \<noteq> [] \<and> data w \<noteq> [] \<and> data f \<noteq> []"
  then obtain st' where fp: "forward_pass tf self True sample st = (Inr (noise_z, r, w, f), st')"
    by (cases "forward_pass tf self True sample st") auto
  from h have target: "data (fill (shape r) 0.9) = replicate (length (data r)) 0.9"
    by (simp add: fill_def wf_tensor_def)
  from h have step: "fst (train_step tf self sample st) = Inr (batch_losses self (fill (shape r) 0.9) r w f st')"
    by (simp add: train_step_def fp)
  from batch_losses_bce [of self "fill (shape r) 0.9" r "0.9" w f st'] h target step
  show "\<exists>l. fst (train_step tf self sample st) = Inr l
         \<and> step_disc_real_loss l = Some (mean_bce 0.9 r)
         \<and> step_disc_wrong_loss l = Some (mean_bce 0 w)
         \<and> step_disc_fake_loss l = Some (mean_bce 0 f)
         \<and> step_discriminator_loss l = Some (mean_bce 0.9 r + 0.5 * mean_bce 0 w + 0.5 * mean_bce 0 f)"
    by simp
next
  assume h: "loss (model_discriminator self) = BinaryCrossentropy_from_logits
        \<and> fst (forward_pass tf self False sample st) = Inr (noise_z, r, w, f)
        \<and> data r \<noteq> [] \<and> data w \<noteq> [] \<and> data f \<noteq> []"
  then obtain st' where fp: "forward_pass tf self False sample st = (Inr (noise_z, r, w, f), st')"
    by (cases "forward_pass tf self False sample st") auto
  have target: "data (ones_like r) = replicate (length (data r)) 1"
    by (simp add: ones_like_def)
  from h have step: "fst (val_step tf self sample st) = Inr (batch_losses self (ones_like r) r w f st')"
    by (simp add: val_step_def fp)
  from batch_losses_bce [of self "ones_like r" r 1 w f st'] h target step
  show "\<exists>l. fst (val_step tf self sample st) = Inr l
         \<and> step_disc_real_loss l = Some (mean_bce 1 r)
         \<and> step_disc_wrong_loss l = Some (mean_bce 0 w)
         \<and> step_disc_fake_loss l = Some (mean_bce 0 f)
         \<and> step_discriminator_loss l = Some (mean_bce 1 r + 0.5 * mean_bce 0 w + 0.5 * mean_bce 0 f)"
    by simp
qed

theorem discriminator_loss_weighted_sum_witness:
  "DiscriminatorStage1_loss example_logit example_logit example_logit
     = Some (mean_bce 1 example_logit + 0.5 * mean_bce 0 example_logit + 0.5 * mean_bce 0 example_logit)
   \<and> (\<exists>l. fst (train_step example_tf example_trainer example_batch example_state) = Inr l
         \<and> step_discriminator_loss l
           = Some (mean_bce 0.9 example_logit + 0.5 * mean_bce 0 example_logit + 0.5 * mean_bce 0 example_logit))
   \<and> (\<exists>l. fst (val_step example_tf example_trainer example_batch example_state) = Inr l
         \<and> step_discriminator_loss l
           = Some (mean_bce 1 example_logit + 0.5 * mean_bce 0 example_logit + 0.5 * mean_bce 0 example_logit))"
proof -
  have a: "data example_logit \<noteq> [] \<and> data example_logit \<noteq> [] \<and> data example_logit \<noteq> []"
    by (simp add: example_logit_def)
  have b: "loss (model_discriminator example_trainer) = BinaryCrossentropy_from_logits"
    by (simp add: example_trainer_def example_discriminator_def)
  have c: "wf_tensor example_logit"
    by (simp add: wf_tensor_def example_logit_def)
  note fp = example_forward_pass [of True example_state] example_forward_pass [of False example_state]
  from discriminator_loss_weighted_sum [of example_logit example_logit example_logit example_trainer
      example_tf example_batch example_state "\<lparr>shape = [1, 2], data = [0, 0]\<rparr>"] a b c fp
  show ?thesis
    by blast
qed

end
